theory Spec2Isabelle
  imports Complex_Main "HOL-Library.Multiset"
begin

section \<open>Data model of the CivicSync client (src/src/app.js)\<close>

text \<open>
  The application is one React component tree over a hosted document store and an auth
  service. The embedding keeps the React state of \<open>App\<close> as a record, the persisted
  profile documents as a map, and every call into the remote services, together with every
  state setter the handlers run, as an event appended to a trace in program order.

  JavaScript objects with optional properties are records with \<open>option\<close> fields:
  \<open>None\<close> is a missing (undefined) property. Timestamps are their millisecond values.
\<close>

record auth_user =
  uid :: string
  email :: "string option"

record issue =
  id_field :: "string option"
  title :: "string option"
  description :: "string option"
  location :: "string option"
  coordinates :: "(real \<times> real) option"
  imageUrl :: "string option"
  photoUrl :: "string option"
  videoUrl :: "string option"
  audioUrl :: "string option"
  status :: "string option"
  upvotes :: "int option"
  createdAt :: "int option"
  reporterId :: "string option"

record profile =
  points :: "int option"
  badges :: "string list option"
  reportedIssues :: "int option"
  name :: "string option"

record app_state =
  user :: "auth_user option"
  isLoading :: bool
  issues :: "issue list"
  isSubmitting :: bool
  error :: "string option"
  showForm :: bool
  userProfile :: profile
  authView :: string

text \<open>The result of an awaited remote call: the promise resolves or rejects.\<close>

datatype outcome = Resolved | Rejected

datatype setter =
    SetUser "auth_user option"
  | SetIsLoading bool
  | SetIssues "issue list"
  | SetIsSubmitting bool
  | SetError "string option"
  | SetShowForm bool
  | SetUserProfile profile
  | SetAuthView string

text \<open>
  The remote calls the handlers issue. \<open>SetDocProfileMerge u dp dr bs\<close> is
  \<open>setDoc(profileRef, {points: increment(dp), reportedIssues: increment(dr), badges: bs},
  {merge: true})\<close>; \<open>UpdateDocProfile u dp dr\<close> is \<open>updateDoc(profileRef, {points:
  increment(dp), reportedIssues: increment(dr)})\<close>; \<open>UpdateDocUpvotes i d\<close> is
  \<open>updateDoc(issueRef, {upvotes: increment(d)})\<close>; \<open>SetDocProfile u p\<close> is the plain
  \<open>setDoc(profileRef, p)\<close>.
\<close>

datatype remote_call =
    AddDoc issue
  | SetDocProfileMerge string int int "string list"
  | DeleteDoc string
  | UpdateDocProfile string int int
  | UpdateDocUpvotes string int
  | GetDoc string
  | SetDocProfile string profile
  | SignOut
  | SignInWithEmailAndPassword string string
  | CreateUserWithEmailAndPassword string string
  | SignInWithCustomToken string
  | SignInAnonymously

datatype event = Set setter | Call remote_call outcome

record world =
  ui :: app_state
  profiles :: "string \<rightharpoonup> profile"
  trace :: "event list"

section \<open>JavaScript helpers\<close>

definition truthy_str :: "string option \<Rightarrow> bool" where
  \<comment> \<open>truthiness of a string-or-undefined value: undefined and the empty string are falsy\<close>
  "truthy_str v = (case v of None \<Rightarrow> False | Some s \<Rightarrow> s \<noteq> [])"

definition or_str :: "string option \<Rightarrow> string option \<Rightarrow> string option" where
  \<comment> \<open>\<open>a || b\<close> on string-or-undefined values\<close>
  "or_str a b = (if truthy_str a then a else b)"

definition or0 :: "int option \<Rightarrow> int" where
  \<comment> \<open>\<open>v || 0\<close> on a number-or-undefined value\<close>
  "or0 v = (case v of None \<Rightarrow> 0 | Some n \<Rightarrow> n)"

text \<open>
  \<open>Array.prototype.sort(cmp)\<close> is the language's built-in: since ECMAScript 2019 it is a
  stable sort by the comparator, where \<open>cmp a b \<le> 0\<close> keeps \<open>a\<close> in front of \<open>b\<close>.
  It is modelled by a stable insertion sort taking the source's comparator.
\<close>

fun place :: "('a \<Rightarrow> 'a \<Rightarrow> int) \<Rightarrow> 'a \<Rightarrow> 'a list \<Rightarrow> 'a list" where
  "place cmp a [] = [a]"
| "place cmp a (b # bs) = (if cmp a b \<le> 0 then a # b # bs else b # place cmp a bs)"

definition array_sort :: "('a \<Rightarrow> 'a \<Rightarrow> int) \<Rightarrow> 'a list \<Rightarrow> 'a list" where
  "array_sort cmp xs = foldr (place cmp) xs []"

section \<open>The issue feed subscription (onSnapshot handler of \<open>App\<close>)\<close>

definition compareIssues :: "issue \<Rightarrow> issue \<Rightarrow> int" where
  "compareIssues a b =
     (let upvoteDiff = or0 (upvotes b) - or0 (upvotes a)
      in if upvoteDiff \<noteq> 0 then upvoteDiff
         else or0 (createdAt b) - or0 (createdAt a))"

definition snapshotIssue :: "string \<times> issue \<Rightarrow> issue" where
  \<comment> \<open>\<open>{ id: doc.id, ...doc.data() }\<close>: an \<open>id\<close> property of the data wins over \<open>doc.id\<close>\<close>
  "snapshotIssue d =
     (case d of (doc_id, dat) \<Rightarrow>
        dat\<lparr>id_field := (case id_field dat of None \<Rightarrow> Some doc_id | Some i \<Rightarrow> Some i)\<rparr>)"

definition feedView :: "(string \<times> issue) list \<Rightarrow> issue list" where
  "feedView docs = array_sort compareIssues (map snapshotIssue docs)"

fun apply_setter :: "setter \<Rightarrow> app_state \<Rightarrow> app_state" where
  "apply_setter (SetUser v) s = s\<lparr>user := v\<rparr>"
| "apply_setter (SetIsLoading v) s = s\<lparr>isLoading := v\<rparr>"
| "apply_setter (SetIssues v) s = s\<lparr>issues := v\<rparr>"
| "apply_setter (SetIsSubmitting v) s = s\<lparr>isSubmitting := v\<rparr>"
| "apply_setter (SetError v) s = s\<lparr>error := v\<rparr>"
| "apply_setter (SetShowForm v) s = s\<lparr>showForm := v\<rparr>"
| "apply_setter (SetUserProfile v) s = s\<lparr>userProfile := v\<rparr>"
| "apply_setter (SetAuthView v) s = s\<lparr>authView := v\<rparr>"

definition set_state :: "setter \<Rightarrow> world \<Rightarrow> world" where
  "set_state st w = w\<lparr>ui := apply_setter st (ui w), trace := trace w @ [Set st]\<rparr>"

definition onIssuesSnapshot :: "(string \<times> issue) list \<Rightarrow> world \<Rightarrow> world" where
  "onIssuesSnapshot docs w = set_state (SetIssues (feedView docs)) w"

text \<open>The order of the feed: more upvotes first, then the later creation time first.\<close>

definition feed_before :: "issue \<Rightarrow> issue \<Rightarrow> bool" where
  "feed_before a b \<longleftrightarrow>
     or0 (upvotes a) > or0 (upvotes b)
     \<or> (or0 (upvotes a) = or0 (upvotes b) \<and> or0 (createdAt a) \<ge> or0 (createdAt b))"

definition sort_key_of :: "issue \<Rightarrow> int \<times> int" where
  "sort_key_of a = (or0 (upvotes a), or0 (createdAt a))"

section \<open>Document references\<close>

text \<open>
  \<open>doc(db, path, ...pathSegments)\<close> of the store's client library builds a document
  reference and throws on a malformed path: it refuses an empty \<open>path\<close> and a component
  containing \<open>//\<close>, splits every component at \<open>/\<close> dropping the empty pieces, and
  refuses a path with an odd number of segments (that is a collection). \<open>None\<close> is the
  throw. The global \<open>__app_id\<close>, when the hosting page defines it, is taken to be one
  path segment, as the default \<open>'default-app-id'\<close> is.
\<close>

fun has_double_slash :: "string \<Rightarrow> bool" where
  "has_double_slash (a # b # s) =
     ((a = CHR ''/'' \<and> b = CHR ''/'') \<or> has_double_slash (b # s))"
| "has_double_slash s = False"

fun split_from :: "string \<Rightarrow> string \<Rightarrow> string list" where
  \<comment> \<open>\<open>split('/')\<close>, with the piece read so far as first argument\<close>
  "split_from piece [] = [piece]"
| "split_from piece (c # s) =
     (if c = CHR ''/'' then piece # split_from [] s else split_from (piece @ [c]) s)"

definition path_segments :: "string \<Rightarrow> string list" where
  \<comment> \<open>\<open>path.split('/').filter(segment => segment.length > 0)\<close>\<close>
  "path_segments p = filter (\<lambda>x. x \<noteq> []) (split_from [] p)"

definition doc :: "string \<Rightarrow> string list \<Rightarrow> string list option" where
  "doc p pathSegments =
     (if p = [] then None
      else if list_ex has_double_slash (p # pathSegments) then None
      else (let segs = concat (map path_segments (p # pathSegments))
            in if even (length segs) then Some segs else None))"

definition appId :: string where
  "appId = ''default-app-id''"

definition issuesCollectionPath :: string where
  "issuesCollectionPath = ''artifacts/'' @ appId @ ''/public/data/issues''"

definition getProfileDocPath :: "string \<Rightarrow> string" where
  "getProfileDocPath u = ''artifacts/'' @ appId @ ''/public/data/profiles/'' @ u"

definition issueDocRef :: "string \<Rightarrow> string list option" where
  \<comment> \<open>\<open>doc(db, issuesCollectionPath, id)\<close>\<close>
  "issueDocRef i = doc issuesCollectionPath [i]"

definition profileDocRef :: "string \<Rightarrow> string list option" where
  \<comment> \<open>\<open>doc(db, getProfileDocPath(uid))\<close>\<close>
  "profileDocRef u = doc (getProfileDocPath u) []"

section \<open>Remote calls\<close>

text \<open>
  The remote calls are logged with the id or uid their document reference was built
  from, and the persisted profiles are keyed by the uid.
\<close>

definition increment :: "int \<Rightarrow> int option \<Rightarrow> int option" where
  \<comment> \<open>the store's \<open>increment(n)\<close> field transform: a missing field becomes \<open>n\<close>\<close>
  "increment n v = (case v of None \<Rightarrow> Some n | Some m \<Rightarrow> Some (m + n))"

definition log_call :: "remote_call \<Rightarrow> outcome \<Rightarrow> world \<Rightarrow> world" where
  "log_call c r w = w\<lparr>trace := trace w @ [Call c r]\<rparr>"

definition empty_profile :: profile where
  "empty_profile = \<lparr>points = None, badges = None, reportedIssues = None, name = None\<rparr>"

definition addDoc :: "outcome \<Rightarrow> issue \<Rightarrow> world \<Rightarrow> outcome \<times> world" where
  "addDoc r d w = (r, log_call (AddDoc d) r w)"

definition deleteDoc :: "outcome \<Rightarrow> string \<Rightarrow> world \<Rightarrow> outcome \<times> world" where
  "deleteDoc r i w = (r, log_call (DeleteDoc i) r w)"

definition updateDoc_upvotes :: "outcome \<Rightarrow> string \<Rightarrow> int \<Rightarrow> world \<Rightarrow> outcome \<times> world" where
  "updateDoc_upvotes r i d w = (r, log_call (UpdateDocUpvotes i d) r w)"

definition signOut :: "outcome \<Rightarrow> world \<Rightarrow> outcome \<times> world" where
  "signOut r w = (r, log_call SignOut r w)"

definition setDoc_profile_merge ::
  "outcome \<Rightarrow> string \<Rightarrow> int \<Rightarrow> int \<Rightarrow> string list \<Rightarrow> world \<Rightarrow> outcome \<times> world" where
  \<comment> \<open>a merging write creates the document when it is missing\<close>
  "setDoc_profile_merge r u dp dr bs w =
     (case r of
        Rejected \<Rightarrow> (Rejected, log_call (SetDocProfileMerge u dp dr bs) Rejected w)
      | Resolved \<Rightarrow>
          (let p = (case profiles w u of None \<Rightarrow> empty_profile | Some q \<Rightarrow> q);
               p' = p\<lparr>points := increment dp (points p),
                       reportedIssues := increment dr (reportedIssues p),
                       badges := Some bs\<rparr>
           in (Resolved,
               log_call (SetDocProfileMerge u dp dr bs) Resolved
                 (w\<lparr>profiles := (profiles w)(u \<mapsto> p')\<rparr>))))"

definition updateDoc_profile ::
  "outcome \<Rightarrow> string \<Rightarrow> int \<Rightarrow> int \<Rightarrow> world \<Rightarrow> outcome \<times> world" where
  \<comment> \<open>an update of a document that does not exist is rejected by the store\<close>
  "updateDoc_profile r u dp dr w =
     (case profiles w u of
        None \<Rightarrow> (Rejected, log_call (UpdateDocProfile u dp dr) Rejected w)
      | Some p \<Rightarrow>
          (case r of
             Rejected \<Rightarrow> (Rejected, log_call (UpdateDocProfile u dp dr) Rejected w)
           | Resolved \<Rightarrow>
               (Resolved,
                log_call (UpdateDocProfile u dp dr) Resolved
                  (w\<lparr>profiles := (profiles w)(u \<mapsto>
                       p\<lparr>points := increment dp (points p),
                          reportedIssues := increment dr (reportedIssues p)\<rparr>)\<rparr>))))"

definition auth_call :: "remote_call \<Rightarrow> outcome \<Rightarrow> world \<Rightarrow> outcome \<times> world" where
  \<comment> \<open>a call into the auth service; the identity change arrives later through
      \<open>onAuthStateChanged\<close>\<close>
  "auth_call c r w = (r, log_call c r w)"

definition getDoc_profile :: "outcome \<Rightarrow> string \<Rightarrow> world \<Rightarrow> (outcome \<times> profile option) \<times> world" where
  "getDoc_profile r u w =
     (case r of
        Rejected \<Rightarrow> ((Rejected, None), log_call (GetDoc u) Rejected w)
      | Resolved \<Rightarrow> ((Resolved, profiles w u), log_call (GetDoc u) Resolved w))"

definition setDoc_profile :: "outcome \<Rightarrow> string \<Rightarrow> profile \<Rightarrow> world \<Rightarrow> outcome \<times> world" where
  "setDoc_profile r u p w =
     (case r of
        Rejected \<Rightarrow> (Rejected, log_call (SetDocProfile u p) Rejected w)
      | Resolved \<Rightarrow>
          (Resolved, log_call (SetDocProfile u p) Resolved (w\<lparr>profiles := (profiles w)(u \<mapsto> p)\<rparr>)))"

section \<open>Handlers of \<open>App\<close>\<close>

definition zero_profile :: profile where
  \<comment> \<open>\<open>{ points: 0, badges: [], reportedIssues: 0 }\<close>\<close>
  "zero_profile = \<lparr>points = Some 0, badges = Some [], reportedIssues = Some 0, name = None\<rparr>"

definition onAuthStateChanged :: "auth_user option \<Rightarrow> world \<Rightarrow> world" where
  "onAuthStateChanged currentUser w =
     set_state (SetIsLoading False) (set_state (SetUser currentUser) w)"

definition fetchUserProfile :: "outcome \<Rightarrow> outcome \<Rightarrow> world \<Rightarrow> world" where
  \<comment> \<open>run by the effect on \<open>user\<close>; no try/catch, so a throwing \<open>doc\<close> or a rejected
      call ends it\<close>
  "fetchUserProfile r_get r_set w =
     (case user (ui w) of
        None \<Rightarrow> w
      | Some u \<Rightarrow>
          (case profileDocRef (uid u) of
             None \<Rightarrow> w
           | Some profileRef \<Rightarrow>
               (case getDoc_profile r_get (uid u) w of
                  ((Rejected, _), w1) \<Rightarrow> w1
                | ((Resolved, Some p), w1) \<Rightarrow> set_state (SetUserProfile p) w1
                | ((Resolved, None), w1) \<Rightarrow>
                    (let initialProfile =
                           \<lparr>points = Some 0, badges = Some [], reportedIssues = Some 0,
                            name = or_str (email u) (Some ''Guest User'')\<rparr>;
                         (rs, w2) = setDoc_profile r_set (uid u) initialProfile w1
                     in if rs = Rejected then w2
                        else set_state (SetUserProfile initialProfile) w2))))"

definition onIssuesError :: "world \<Rightarrow> world" where
  "onIssuesError w = set_state (SetError (Some ''Failed to load civic issues.'')) w"

definition handleLogin :: "outcome \<Rightarrow> string option \<Rightarrow> string \<Rightarrow> string \<Rightarrow> world \<Rightarrow> world" where
  \<comment> \<open>\<open>msg\<close>: the \<open>err.message\<close> of a rejection\<close>
  "handleLogin r msg em pw w =
     (let w1 = set_state (SetIsLoading True) w;
          w2 = set_state (SetError None) w1;
          (ra, w3) = auth_call (SignInWithEmailAndPassword em pw) r w2;
          w4 = (if ra = Rejected then set_state (SetError msg) w3 else w3)
      in set_state (SetIsLoading False) w4)"

definition handleSignup :: "outcome \<Rightarrow> string option \<Rightarrow> string \<Rightarrow> string \<Rightarrow> world \<Rightarrow> world" where
  "handleSignup r msg em pw w =
     (let w1 = set_state (SetIsLoading True) w;
          w2 = set_state (SetError None) w1;
          (ra, w3) = auth_call (CreateUserWithEmailAndPassword em pw) r w2;
          w4 = (if ra = Rejected then set_state (SetError msg) w3 else w3)
      in set_state (SetIsLoading False) w4)"

definition handleGuestLogin :: "outcome \<Rightarrow> string option \<Rightarrow> world \<Rightarrow> world" where
  \<comment> \<open>\<open>tok\<close>: the global \<open>__initial_auth_token\<close>, when it is defined\<close>
  "handleGuestLogin r tok w =
     (let w1 = set_state (SetIsLoading True) w;
          (ra, w2) = (case tok of
                        Some t \<Rightarrow> auth_call (SignInWithCustomToken t) r w1
                      | None \<Rightarrow> auth_call SignInAnonymously r w1)
      in if ra = Rejected
         then set_state (SetIsLoading False)
                (set_state (SetError (Some ''Guest authentication failed.'')) w2)
         else w2)"

definition handleLogout :: "outcome \<Rightarrow> world \<Rightarrow> world" where
  \<comment> \<open>no try/catch: a rejected \<open>signOut\<close> ends the handler at the \<open>await\<close>\<close>
  "handleLogout r w =
     (case signOut r w of
        (Rejected, w1) \<Rightarrow> w1
      | (Resolved, w1) \<Rightarrow>
          (let w2 = set_state (SetUser None) w1;
               w3 = set_state (SetIssues []) w2;
               w4 = set_state (SetUserProfile zero_profile) w3
           in set_state (SetAuthView ''login'') w4))"

definition newBadges :: "profile \<Rightarrow> string list" where
  \<comment> \<open>computed from the React state \<open>userProfile\<close>, the local copy of the profile\<close>
  "newBadges p =
     (let newReportCount = or0 (reportedIssues p) + 1;
          b0 = (case badges p of None \<Rightarrow> [] | Some bs \<Rightarrow> bs);
          b1 = (if newReportCount \<ge> 1 \<and> ''First Report'' \<notin> set b0
                then b0 @ [''First Report''] else b0)
      in if newReportCount \<ge> 5 \<and> ''Neighborhood Hero'' \<notin> set b1
         then b1 @ [''Neighborhood Hero''] else b1)"

definition addIssue_catch :: "world \<Rightarrow> world" where
  "addIssue_catch w = set_state (SetError (Some ''Failed to submit issue.'')) w"

definition addIssue :: "outcome \<Rightarrow> outcome \<Rightarrow> int \<Rightarrow> issue \<Rightarrow> world \<Rightarrow> world" where
  \<comment> \<open>\<open>r_add\<close>, \<open>r_set\<close>: the results of the two awaited writes; \<open>now\<close>: \<open>new Date()\<close>\<close>
  "addIssue r_add r_set now draft w =
     (case user (ui w) of
        None \<Rightarrow> set_state (SetError (Some ''You must be signed in.'')) w
      | Some u \<Rightarrow>
          (let w1 = set_state (SetIsSubmitting True) w;
               w2 = set_state (SetError None) w1;
               (ra, w3) = addDoc r_add
                  (draft\<lparr>status := Some ''Acknowledged'', upvotes := Some 0,
                         createdAt := Some now, reporterId := Some (uid u)\<rparr>) w2;
               w5 = (if ra = Rejected then addIssue_catch w3
                     else (case profileDocRef (uid u) of
                             None \<Rightarrow> addIssue_catch w3
                           | Some profileRef \<Rightarrow>
                               (let (rs, w4) = setDoc_profile_merge r_set (uid u) 10 1
                                                 (newBadges (userProfile (ui w))) w3
                                in if rs = Rejected then addIssue_catch w4
                                   else set_state (SetShowForm False) w4)))
           in set_state (SetIsSubmitting False) w5))"

definition handleDelete_catch :: "issue list \<Rightarrow> world \<Rightarrow> world" where
  "handleDelete_catch originalIssues w =
     (let w1 = set_state
                 (SetError (Some ''Failed to delete the report. Please refresh and try again.'')) w
      in set_state (SetIssues originalIssues) w1)"

definition handleDelete_try ::
  "outcome \<Rightarrow> outcome \<Rightarrow> auth_user \<Rightarrow> string \<Rightarrow> issue list \<Rightarrow> world \<Rightarrow> world" where
  \<comment> \<open>the \<open>try\<close>/\<open>catch\<close> statement: both \<open>doc\<close> calls and both awaited calls stand in
      the \<open>try\<close>; \<open>r_del\<close>, \<open>r_upd\<close> are the results of \<open>deleteDoc\<close> and of the profile
      \<open>updateDoc\<close>\<close>
  "handleDelete_try r_del r_upd u i originalIssues w1 =
     (case issueDocRef i of
        None \<Rightarrow> handleDelete_catch originalIssues w1
      | Some issueRef \<Rightarrow>
          (let (rd, w2) = deleteDoc r_del i w1
           in if rd = Rejected then handleDelete_catch originalIssues w2
              else (case profileDocRef (uid u) of
                      None \<Rightarrow> handleDelete_catch originalIssues w2
                    | Some profileRef \<Rightarrow>
                        (let (ru, w3) = updateDoc_profile r_upd (uid u) (- 10) (- 1) w2
                         in if ru = Rejected then handleDelete_catch originalIssues w3
                            else w3))))"

definition handleDelete :: "outcome \<Rightarrow> outcome \<Rightarrow> string option \<Rightarrow> world \<Rightarrow> world" where
  "handleDelete r_del r_upd issueId w =
     (case user (ui w) of
        None \<Rightarrow> w
      | Some u \<Rightarrow>
          (case issueId of
             None \<Rightarrow> w
           | Some i \<Rightarrow>
               if i = [] then w
               else
                 (let originalIssues = issues (ui w);
                      w1 = set_state
                             (SetIssues (filter (\<lambda>x. id_field x \<noteq> Some i) (issues (ui w)))) w
                  in handleDelete_try r_del r_upd u i originalIssues w1)))"

definition handleUpvote :: "outcome \<Rightarrow> string \<Rightarrow> world \<Rightarrow> world" where
  \<comment> \<open>\<open>doc\<close> stands before the \<open>try\<close>: when it throws the handler ends there; a rejected
      update is only written to the console\<close>
  "handleUpvote r i w =
     (case user (ui w) of
        None \<Rightarrow> w
      | Some u \<Rightarrow>
          (case issueDocRef i of
             None \<Rightarrow> w
           | Some issueRef \<Rightarrow> snd (updateDoc_upvotes r i 1 w)))"

section \<open>The report form (\<open>ReportIssueModal\<close>)\<close>

datatype media_kind = Photo | Video | Audio

record media_state =
  mtype :: "media_kind option"
  dataUrl :: "string option"

record report_form =
  title_in :: string
  description_in :: string
  location_in :: string
  media :: media_state
  coordinates_in :: "(real \<times> real) option"
  formError :: string

definition isWhiteSpace :: "char \<Rightarrow> bool" where
  \<comment> \<open>the white space and line terminators of \<open>String.prototype.trim\<close> among the
      one-byte characters: TAB, LF, VT, FF, CR, SP, NBSP\<close>
  "isWhiteSpace c \<longleftrightarrow>
     c \<in> set [CHR 0x09, CHR 0x0A, CHR 0x0B, CHR 0x0C, CHR 0x0D, CHR 0x20, CHR 0xA0]"

definition trim :: "string \<Rightarrow> string" where
  "trim s = rev (dropWhile isWhiteSpace (rev (dropWhile isWhiteSpace s)))"

definition issueData :: "report_form \<Rightarrow> issue" where
  \<comment> \<open>\<open>issueData[`${media.type}Url`] = media.dataUrl\<close>, or the placeholder image\<close>
  "issueData f =
     (let d = \<lparr>id_field = None, title = Some (title_in f),
                description = Some (description_in f), location = Some (location_in f),
                coordinates = coordinates_in f, imageUrl = None, photoUrl = None,
                videoUrl = None, audioUrl = None, status = None, upvotes = None,
                createdAt = None, reporterId = None\<rparr>
      in if truthy_str (dataUrl (media f)) then
           (case mtype (media f) of
              Some Photo \<Rightarrow> d\<lparr>photoUrl := dataUrl (media f)\<rparr>
            | Some Video \<Rightarrow> d\<lparr>videoUrl := dataUrl (media f)\<rparr>
            | Some Audio \<Rightarrow> d\<lparr>audioUrl := dataUrl (media f)\<rparr>
            | None \<Rightarrow> d)
         else d\<lparr>imageUrl :=
                  Some ''https://placehold.co/600x400/EEE/31343C?text=No+Media+Provided''\<rparr>)"

definition handleSubmit ::
  "outcome \<Rightarrow> outcome \<Rightarrow> int \<Rightarrow> report_form \<Rightarrow> world \<Rightarrow> report_form \<times> world" where
  "handleSubmit r_add r_set now f w =
     (if trim (title_in f) = [] \<or> trim (description_in f) = [] \<or> trim (location_in f) = []
      then (f\<lparr>formError := ''All fields are required.''\<rparr>, w)
      else (f, addIssue r_add r_set now (issueData f) w))"

section \<open>The issue card (\<open>IssueCard\<close>)\<close>

definition mainMediaUrl :: "issue \<Rightarrow> string option" where
  "mainMediaUrl i = or_str (or_str (imageUrl i) (photoUrl i)) (videoUrl i)"

definition mainMediaType :: "issue \<Rightarrow> string" where
  "mainMediaType i = (if truthy_str (videoUrl i) then ''video'' else ''photo'')"

section \<open>Observations on a run\<close>

fun remote_calls :: "event list \<Rightarrow> (remote_call \<times> outcome) list" where
  "remote_calls [] = []"
| "remote_calls (Call c r # es) = (c, r) # remote_calls es"
| "remote_calls (Set st # es) = remote_calls es"

fun added_docs :: "event list \<Rightarrow> issue list" where
  "added_docs [] = []"
| "added_docs (Call (AddDoc d) r # es) = d # added_docs es"
| "added_docs (e # es) = added_docs es"

definition badges_of :: "profile \<Rightarrow> string list" where
  \<comment> \<open>\<open>p.badges || []\<close>\<close>
  "badges_of p = (case badges p of None \<Rightarrow> [] | Some bs \<Rightarrow> bs)"

definition persisted_badges :: "world \<Rightarrow> string \<Rightarrow> string set" where
  "persisted_badges w u = (case profiles w u of None \<Rightarrow> {} | Some p \<Rightarrow> set (badges_of p))"

definition spec_threshold_badges :: "int \<Rightarrow> string list" where
  \<comment> \<open>the specification's badge rule, in its words: "First Report" at a count of at
      least 1, "Neighborhood Hero" at a count of at least 5\<close>
  "spec_threshold_badges n =
     (if n \<ge> 1 then [''First Report''] else []) @ (if n \<ge> 5 then [''Neighborhood Hero''] else [])"

section \<open>The operations of the application\<close>

datatype operation =
    AuthStateChanged "auth_user option"
  | ProfileLoad outcome outcome
  | IssuesSnapshot "(string \<times> issue) list"
  | IssuesError
  | Login outcome "string option" string string
  | Signup outcome "string option" string string
  | GuestLogin outcome "string option"
  | Logout outcome
  | Submit outcome outcome int report_form
  | Delete outcome outcome "string option"
  | Upvote outcome string

fun step :: "operation \<Rightarrow> world \<Rightarrow> world" where
  "step (AuthStateChanged cu) w = onAuthStateChanged cu w"
| "step (ProfileLoad r_get r_set) w = fetchUserProfile r_get r_set w"
| "step (IssuesSnapshot docs) w = onIssuesSnapshot docs w"
| "step IssuesError w = onIssuesError w"
| "step (Login r msg em pw) w = handleLogin r msg em pw w"
| "step (Signup r msg em pw) w = handleSignup r msg em pw w"
| "step (GuestLogin r tok) w = handleGuestLogin r tok w"
| "step (Logout r) w = handleLogout r w"
| "step (Submit r_add r_set now f) w = snd (handleSubmit r_add r_set now f w)"
| "step (Delete r_del r_upd issueId) w = handleDelete r_del r_upd issueId w"
| "step (Upvote r i) w = handleUpvote r i w"

section \<open>Example states\<close>

definition alice :: auth_user where
  "alice = \<lparr>uid = ''u1'', email = Some ''alice@example.org''\<rparr>"

definition report :: "string \<Rightarrow> int option \<Rightarrow> int option \<Rightarrow> issue" where
  "report i v t =
     \<lparr>id_field = Some i, title = Some ''Pothole'', description = Some ''Deep'',
      location = Some ''Main St'', coordinates = None, imageUrl = None, photoUrl = None,
      videoUrl = None, audioUrl = None, status = Some ''Acknowledged'', upvotes = v,
      createdAt = t, reporterId = Some ''u1''\<rparr>"

definition stored :: "int option \<Rightarrow> int option \<Rightarrow> issue" where
  \<comment> \<open>a stored document's data: no \<open>id\<close> property\<close>
  "stored v t = (report [] v t)\<lparr>id_field := None\<rparr>"

definition app_start :: app_state where
  \<comment> \<open>the initial React state of \<open>App\<close>\<close>
  "app_start =
     \<lparr>user = None, isLoading = True, issues = [], isSubmitting = False, error = None,
      showForm = False, userProfile = zero_profile, authView = ''login''\<rparr>"

definition signed_in :: "profile \<Rightarrow> profile \<Rightarrow> world" where
  \<comment> \<open>alice signed in, with a local profile copy, a persisted profile and three
      reports in the feed\<close>
  "signed_in loc per =
     \<lparr>ui = app_start\<lparr>user := Some alice, isLoading := False, userProfile := loc,
                      issues := [report ''i1'' (Some 3) (Some 10),
                                 report ''i2'' (Some 1) (Some 30),
                                 report ''i3'' (Some 1) (Some 20)]\<rparr>,
      profiles = [''u1'' \<mapsto> per],
      trace = []\<rparr>"

definition boot :: "profile \<Rightarrow> world" where
  \<comment> \<open>the application just loaded, nobody signed in yet, alice's profile persisted\<close>
  "boot per = \<lparr>ui = app_start, profiles = [''u1'' \<mapsto> per], trace = []\<rparr>"

definition signed_out :: world where
  "signed_out = \<lparr>ui = app_start\<lparr>isLoading := False\<rparr>, profiles = Map.empty, trace = []\<rparr>"

definition veteran :: "int \<Rightarrow> profile" where
  \<comment> \<open>a profile holding both badges, with the given report count\<close>
  "veteran n =
     \<lparr>points = Some (10 * n), badges = Some [''First Report'', ''Neighborhood Hero''],
      reportedIssues = Some n, name = Some ''alice@example.org''\<rparr>"

definition filled_form :: report_form where
  "filled_form =
     \<lparr>title_in = ''Pothole'', description_in = ''Deep'', location_in = ''Main St'',
      media = \<lparr>mtype = None, dataUrl = None\<rparr>, coordinates_in = None, formError = []\<rparr>"

section \<open>Properties of the feed view\<close>

lemma compareIssues_le0: "compareIssues a b \<le> 0 \<longleftrightarrow> feed_before a b"
  by (auto simp: compareIssues_def feed_before_def Let_def)

lemma compareIssues_same_key:
  "sort_key_of a = sort_key_of b \<Longrightarrow> compareIssues a b = 0"
  by (simp add: compareIssues_def sort_key_of_def Let_def)

lemma feed_before_trans: "feed_before a b \<Longrightarrow> feed_before b c \<Longrightarrow> feed_before a c"
  by (auto simp: feed_before_def)

lemma feed_before_total: "\<not> feed_before a b \<Longrightarrow> feed_before b a"
  by (auto simp: feed_before_def)

lemma mset_place: "mset (place cmp a bs) = add_mset a (mset bs)"
  by (induction bs) simp_all

lemma mset_array_sort: "mset (array_sort cmp xs) = mset xs"
  by (induction xs) (simp_all add: array_sort_def mset_place)

lemma set_place: "set (place cmp a bs) = insert a (set bs)"
  by (induction bs) auto

lemma sorted_place:
  "sorted_wrt feed_before bs \<Longrightarrow> sorted_wrt feed_before (place compareIssues a bs)"
proof (induction bs)
  case Nil
  show ?case by simp
next
  case (Cons b bs)
  show ?case
  proof (cases "compareIssues a b \<le> 0")
    case True
    then have ab: "feed_before a b" by (simp add: compareIssues_le0)
    have "\<forall>c\<in>set bs. feed_before a c"
      using Cons.prems ab by (auto intro: feed_before_trans)
    with ab Cons.prems True show ?thesis by simp
  next
    case False
    then have ba: "feed_before b a"
      by (simp add: compareIssues_le0 feed_before_total)
    from Cons have "sorted_wrt feed_before (place compareIssues a bs)" by simp
    with ba Cons.prems False show ?thesis by (auto simp: set_place)
  qed
qed

lemma sorted_array_sort: "sorted_wrt feed_before (array_sort compareIssues xs)"
proof (induction xs)
  case Nil
  show ?case by (simp add: array_sort_def)
next
  case (Cons x xs)
  then show ?case using sorted_place [of "array_sort compareIssues xs" x]
    by (simp add: array_sort_def)
qed

lemma filter_place_other:
  "sort_key_of a \<noteq> k \<Longrightarrow>
   filter (\<lambda>i. sort_key_of i = k) (place cmp a bs) = filter (\<lambda>i. sort_key_of i = k) bs"
  by (induction bs) simp_all

lemma filter_place_same:
  "filter (\<lambda>i. sort_key_of i = sort_key_of a) (place compareIssues a bs)
   = a # filter (\<lambda>i. sort_key_of i = sort_key_of a) bs"
proof (induction bs)
  case Nil
  show ?case by simp
next
  case (Cons b bs)
  show ?case
  proof (cases "compareIssues a b \<le> 0")
    case True
    then show ?thesis by simp
  next
    case False
    then have "sort_key_of b \<noteq> sort_key_of a"
      using compareIssues_same_key [of a b] by auto
    with False Cons.IH show ?thesis by simp
  qed
qed

lemma filter_array_sort:
  "filter (\<lambda>i. sort_key_of i = k) (array_sort compareIssues xs)
   = filter (\<lambda>i. sort_key_of i = k) xs"
proof (induction xs)
  case Nil
  show ?case by (simp add: array_sort_def)
next
  case (Cons x xs)
  have step: "array_sort compareIssues (x # xs) = place compareIssues x (array_sort compareIssues xs)"
    by (simp add: array_sort_def)
  show ?case
  proof (cases "sort_key_of x = k")
    case True
    then show ?thesis
      using filter_place_same [of x "array_sort compareIssues xs"] Cons.IH step by simp
  next
    case False
    then show ?thesis
      using filter_place_other [of x k compareIssues "array_sort compareIssues xs"] Cons.IH step
      by simp
  qed
qed

text \<open>
  Claim C1. For every snapshot delivered to the feed subscription, the local feed view is
  set to the snapshot's records (each with its id), holding the same records as the
  snapshot, ordered by upvotes descending (a missing upvotes counted as 0) and then by
  createdAt descending (a missing createdAt counted as 0); records with equal upvotes and
  createdAt keep the order in which the snapshot delivered them.
\<close>

theorem feed_view_sorted_stable:
  "issues (ui (onIssuesSnapshot docs w)) = feedView docs
   \<and> mset (feedView docs) = mset (map snapshotIssue docs)
   \<and> sorted_wrt feed_before (feedView docs)
   \<and> (\<forall>k. filter (\<lambda>i. sort_key_of i = k) (feedView docs)
           = filter (\<lambda>i. sort_key_of i = k) (map snapshotIssue docs))"
  by (simp add: onIssuesSnapshot_def set_state_def feedView_def mset_array_sort
      sorted_array_sort filter_array_sort)

text \<open>
  The snapshot below has a record without upvotes and two records with one upvote; the
  view puts the later of the two first and the record without upvotes before the record
  with zero upvotes that arrived after it.
\<close>

theorem feed_view_sorted_stable_witness:
  "feedView [(''i3'', stored (Some 1) (Some 20)), (''i1'', stored None (Some 10)),
             (''i2'', stored (Some 1) (Some 30)), (''i4'', stored (Some 0) (Some 10))]
     = [report ''i2'' (Some 1) (Some 30), report ''i3'' (Some 1) (Some 20),
        report ''i1'' None (Some 10), report ''i4'' (Some 0) (Some 10)]
   \<and> sorted_wrt feed_before
        (feedView [(''i3'', stored (Some 1) (Some 20)), (''i1'', stored None (Some 10)),
                   (''i2'', stored (Some 1) (Some 30)), (''i4'', stored (Some 0) (Some 10))])"
  using feed_view_sorted_stable
    [of "[(''i3'', stored (Some 1) (Some 20)), (''i1'', stored None (Some 10)),
          (''i2'', stored (Some 1) (Some 30)), (''i4'', stored (Some 0) (Some 10))]" signed_out]
  by (simp add: feedView_def array_sort_def snapshotIssue_def compareIssues_def or0_def
      report_def stored_def Let_def)

section \<open>Properties of the handlers\<close>

lemmas call_defs = set_state_def log_call_def addDoc_def deleteDoc_def updateDoc_upvotes_def
  signOut_def setDoc_profile_merge_def updateDoc_profile_def auth_call_def getDoc_profile_def
  setDoc_profile_def

lemmas example_defs = alice_def report_def stored_def app_start_def signed_in_def signed_out_def
  boot_def veteran_def filled_form_def zero_profile_def

lemmas doc_defs = issueDocRef_def profileDocRef_def doc_def issuesCollectionPath_def
  getProfileDocPath_def appId_def path_segments_def

lemma doc_examples:
  "issueDocRef ''i2''
     = Some [''artifacts'', ''default-app-id'', ''public'', ''data'', ''issues'', ''i2'']"
  "profileDocRef ''u1''
     = Some [''artifacts'', ''default-app-id'', ''public'', ''data'', ''profiles'', ''u1'']"
  "issueDocRef ''a/b'' = None"
  by (simp_all add: doc_defs)

lemma remote_calls_append: "remote_calls (es @ fs) = remote_calls es @ remote_calls fs"
  by (induction es rule: remote_calls.induct) simp_all

lemma added_docs_append: "added_docs (es @ fs) = added_docs es @ added_docs fs"
  by (induction es rule: added_docs.induct) simp_all

lemma increment_or0: "increment n v = Some (or0 v + n)"
  by (simp add: increment_def or0_def split: option.splits)

lemma set_newBadges:
  "set (newBadges p)
   = set (badges_of p) \<union> set (spec_threshold_badges (or0 (reportedIssues p) + 1))"
  by (auto simp: newBadges_def badges_of_def spec_threshold_badges_def Let_def
      split: option.splits)

subsection \<open>Delete\<close>

text \<open>
  Claim C2, evaluated where it fails. Alice deletes her report \<open>i2\<close>; the remote delete
  resolves and the profile decrement, issued after it, is rejected. The one \<open>catch\<close> of
  \<open>handleDelete\<close> covers both awaited calls, so the view is set back to the list from
  before the delete: the record, deleted in the store, is in the local feed view again,
  under the message that the delete failed.
\<close>

theorem delete_profile_failure_restores_view:
  "remote_calls (trace (handleDelete Resolved Rejected (Some ''i2'')
                          (signed_in (veteran 5) (veteran 5))))
     = [(DeleteDoc ''i2'', Resolved), (UpdateDocProfile ''u1'' (- 10) (- 1), Rejected)]
   \<and> issues (ui (handleDelete Resolved Rejected (Some ''i2'')
                    (signed_in (veteran 5) (veteran 5))))
     = [report ''i1'' (Some 3) (Some 10), report ''i2'' (Some 1) (Some 30),
        report ''i3'' (Some 1) (Some 20)]
   \<and> error (ui (handleDelete Resolved Rejected (Some ''i2'')
                   (signed_in (veteran 5) (veteran 5))))
     = Some ''Failed to delete the report. Please refresh and try again.''"
  by (simp add: handleDelete_def handleDelete_try_def handleDelete_catch_def call_defs
      example_defs Let_def doc_examples)

text \<open>
  Claim C3. For a delete by a signed-in identity of a record with an id: the \<open>try\<close>
  statement, which holds the remote delete call, starts in a world whose local feed view
  is already the view without that record and in which no remote call has been issued;
  when the id gives a document reference, the handler's first event is that removal and
  the next is the remote delete call. If the remote delete call is rejected, the handler
  ends with the local feed view exactly as it was before the delete (every record in
  its place), the error message set, and no other remote call issued; the same holds,
  with no remote call at all, when the id gives no document reference. When the delete
  and the profile decrement both resolve, the view stays without the record and no
  error is set.
\<close>

theorem delete_optimistic_rollback:
  assumes "user (ui w) = Some u" and "i \<noteq> []"
  shows "(\<exists>w1. handleDelete r_del r_upd (Some i) w
                  = handleDelete_try r_del r_upd u i (issues (ui w)) w1
              \<and> issues (ui w1) = filter (\<lambda>x. id_field x \<noteq> Some i) (issues (ui w))
              \<and> remote_calls (trace w1) = remote_calls (trace w))
       \<and> (issueDocRef i \<noteq> None \<longrightarrow>
            (\<exists>rest. trace (handleDelete r_del r_upd (Some i) w)
               = trace w
                 @ [Set (SetIssues (filter (\<lambda>x. id_field x \<noteq> Some i) (issues (ui w)))),
                    Call (DeleteDoc i) r_del]
                 @ rest))
       \<and> (issueDocRef i \<noteq> None \<and> r_del = Rejected \<longrightarrow>
            issues (ui (handleDelete r_del r_upd (Some i) w)) = issues (ui w)
            \<and> error (ui (handleDelete r_del r_upd (Some i) w))
                = Some ''Failed to delete the report. Please refresh and try again.''
            \<and> remote_calls (trace (handleDelete r_del r_upd (Some i) w))
                = remote_calls (trace w) @ [(DeleteDoc i, Rejected)])
       \<and> (issueDocRef i = None \<longrightarrow>
            issues (ui (handleDelete r_del r_upd (Some i) w)) = issues (ui w)
            \<and> error (ui (handleDelete r_del r_upd (Some i) w))
                = Some ''Failed to delete the report. Please refresh and try again.''
            \<and> remote_calls (trace (handleDelete r_del r_upd (Some i) w))
                = remote_calls (trace w))
       \<and> (issueDocRef i \<noteq> None \<and> r_del = Resolved \<and> profileDocRef (uid u) \<noteq> None
            \<and> profiles w (uid u) \<noteq> None \<and> r_upd = Resolved \<longrightarrow>
            issues (ui (handleDelete r_del r_upd (Some i) w))
              = filter (\<lambda>x. id_field x \<noteq> Some i) (issues (ui w))
            \<and> error (ui (handleDelete r_del r_upd (Some i) w)) = error (ui w))"
proof (intro conjI)
  let ?w1 = "set_state (SetIssues (filter (\<lambda>x. id_field x \<noteq> Some i) (issues (ui w)))) w"
  have "handleDelete r_del r_upd (Some i) w
          = handleDelete_try r_del r_upd u i (issues (ui w)) ?w1"
    using assms by (simp add: handleDelete_def Let_def)
  moreover have "issues (ui ?w1) = filter (\<lambda>x. id_field x \<noteq> Some i) (issues (ui w))"
    by (simp add: set_state_def)
  moreover have "remote_calls (trace ?w1) = remote_calls (trace w)"
    by (simp add: set_state_def remote_calls_append)
  ultimately show "\<exists>w1. handleDelete r_del r_upd (Some i) w
                  = handleDelete_try r_del r_upd u i (issues (ui w)) w1
              \<and> issues (ui w1) = filter (\<lambda>x. id_field x \<noteq> Some i) (issues (ui w))
              \<and> remote_calls (trace w1) = remote_calls (trace w)"
    by blast
next
  show "issueDocRef i \<noteq> None \<longrightarrow>
            (\<exists>rest. trace (handleDelete r_del r_upd (Some i) w)
               = trace w
                 @ [Set (SetIssues (filter (\<lambda>x. id_field x \<noteq> Some i) (issues (ui w)))),
                    Call (DeleteDoc i) r_del]
                 @ rest)"
    using assms
    by (cases r_del; cases r_upd; cases "profiles w (uid u)"; cases "profileDocRef (uid u)")
       (auto simp: handleDelete_def handleDelete_try_def handleDelete_catch_def call_defs
          Let_def)
next
  show "issueDocRef i \<noteq> None \<and> r_del = Rejected \<longrightarrow>
            issues (ui (handleDelete r_del r_upd (Some i) w)) = issues (ui w)
            \<and> error (ui (handleDelete r_del r_upd (Some i) w))
                = Some ''Failed to delete the report. Please refresh and try again.''
            \<and> remote_calls (trace (handleDelete r_del r_upd (Some i) w))
                = remote_calls (trace w) @ [(DeleteDoc i, Rejected)]"
    using assms
    by (auto simp: handleDelete_def handleDelete_try_def handleDelete_catch_def call_defs
          Let_def remote_calls_append)
next
  show "issueDocRef i = None \<longrightarrow>
            issues (ui (handleDelete r_del r_upd (Some i) w)) = issues (ui w)
            \<and> error (ui (handleDelete r_del r_upd (Some i) w))
                = Some ''Failed to delete the report. Please refresh and try again.''
            \<and> remote_calls (trace (handleDelete r_del r_upd (Some i) w))
                = remote_calls (trace w)"
    using assms
    by (simp add: handleDelete_def handleDelete_try_def handleDelete_catch_def call_defs
          Let_def remote_calls_append)
next
  show "issueDocRef i \<noteq> None \<and> r_del = Resolved \<and> profileDocRef (uid u) \<noteq> None
            \<and> profiles w (uid u) \<noteq> None \<and> r_upd = Resolved \<longrightarrow>
            issues (ui (handleDelete r_del r_upd (Some i) w))
              = filter (\<lambda>x. id_field x \<noteq> Some i) (issues (ui w))
            \<and> error (ui (handleDelete r_del r_upd (Some i) w)) = error (ui w)"
    using assms
    by (auto simp: handleDelete_def handleDelete_try_def call_defs Let_def)
qed

theorem delete_optimistic_rollback_witness:
  "user (ui (signed_in (veteran 5) (veteran 5))) = Some alice
   \<and> issueDocRef ''i2'' \<noteq> None \<and> issueDocRef ''a/b'' = None
   \<and> profileDocRef (uid alice) \<noteq> None
   \<and> profiles (signed_in (veteran 5) (veteran 5)) (uid alice) \<noteq> None
   \<and> issues (ui (handleDelete Rejected Resolved (Some ''i2'')
                    (signed_in (veteran 5) (veteran 5))))
     = [report ''i1'' (Some 3) (Some 10), report ''i2'' (Some 1) (Some 30),
        report ''i3'' (Some 1) (Some 20)]
   \<and> remote_calls (trace (handleDelete Rejected Resolved (Some ''i2'')
                            (signed_in (veteran 5) (veteran 5))))
     = [(DeleteDoc ''i2'', Rejected)]
   \<and> issues (ui (handleDelete Resolved Resolved (Some ''i2'')
                    (signed_in (veteran 5) (veteran 5))))
     = [report ''i1'' (Some 3) (Some 10), report ''i3'' (Some 1) (Some 20)]
   \<and> issues (ui (handleDelete Resolved Resolved (Some ''a/b'')
                    (signed_in (veteran 5) (veteran 5))))
     = [report ''i1'' (Some 3) (Some 10), report ''i2'' (Some 1) (Some 30),
        report ''i3'' (Some 1) (Some 20)]
   \<and> remote_calls (trace (handleDelete Resolved Resolved (Some ''a/b'')
                            (signed_in (veteran 5) (veteran 5))))
     = []"
proof -
  have h: "user (ui (signed_in (veteran 5) (veteran 5))) = Some alice"
    by (simp add: example_defs)
  have n: "''i2'' \<noteq> []" "''a/b'' \<noteq> []" by simp_all
  have d: "issueDocRef ''i2'' \<noteq> None" "issueDocRef ''a/b'' = None"
    "profileDocRef (uid alice) \<noteq> None"
    by (simp_all add: doc_examples alice_def)
  have p: "profiles (signed_in (veteran 5) (veteran 5)) (uid alice) \<noteq> None"
    by (simp add: example_defs)
  have v: "issues (ui (signed_in (veteran 5) (veteran 5)))
      = [report ''i1'' (Some 3) (Some 10), report ''i2'' (Some 1) (Some 30),
         report ''i3'' (Some 1) (Some 20)]"
    "trace (signed_in (veteran 5) (veteran 5)) = []"
    by (simp_all add: signed_in_def app_start_def)
  have f: "filter (\<lambda>x. id_field x \<noteq> Some ''i2'')
             [report ''i1'' (Some 3) (Some 10), report ''i2'' (Some 1) (Some 30),
              report ''i3'' (Some 1) (Some 20)]
      = [report ''i1'' (Some 3) (Some 10), report ''i3'' (Some 1) (Some 20)]"
    by (simp add: report_def)
  let ?W = "signed_in (veteran 5) (veteran 5)"
  from delete_optimistic_rollback [OF h n(1), of Rejected Resolved] d(1)
  have r1: "issues (ui (handleDelete Rejected Resolved (Some ''i2'') ?W)) = issues (ui ?W)
      \<and> remote_calls (trace (handleDelete Rejected Resolved (Some ''i2'') ?W))
          = remote_calls (trace ?W) @ [(DeleteDoc ''i2'', Rejected)]"
    by blast
  from delete_optimistic_rollback [OF h n(1), of Resolved Resolved] d(1,3) p
  have r2: "issues (ui (handleDelete Resolved Resolved (Some ''i2'') ?W))
      = filter (\<lambda>x. id_field x \<noteq> Some ''i2'') (issues (ui ?W))"
    by blast
  from delete_optimistic_rollback [OF h n(2), of Resolved Resolved] d(2)
  have r3: "issues (ui (handleDelete Resolved Resolved (Some ''a/b'') ?W)) = issues (ui ?W)
      \<and> remote_calls (trace (handleDelete Resolved Resolved (Some ''a/b'') ?W))
          = remote_calls (trace ?W)"
    by blast
  have g: "issues (ui (handleDelete Resolved Resolved (Some ''i2'') ?W))
      = [report ''i1'' (Some 3) (Some 10), report ''i3'' (Some 1) (Some 20)]"
    unfolding r2 v(1) by (rule f)
  from r1 r3 have "issues (ui (handleDelete Rejected Resolved (Some ''i2'') ?W))
      = [report ''i1'' (Some 3) (Some 10), report ''i2'' (Some 1) (Some 30),
         report ''i3'' (Some 1) (Some 20)]
    \<and> remote_calls (trace (handleDelete Rejected Resolved (Some ''i2'') ?W))
      = [(DeleteDoc ''i2'', Rejected)]
    \<and> issues (ui (handleDelete Resolved Resolved (Some ''a/b'') ?W))
      = [report ''i1'' (Some 3) (Some 10), report ''i2'' (Some 1) (Some 30),
         report ''i3'' (Some 1) (Some 20)]
    \<and> remote_calls (trace (handleDelete Resolved Resolved (Some ''a/b'') ?W)) = []"
    by (simp add: v)
  with h d p g show ?thesis by blast
qed

text \<open>
  Claim C10. With no signed-in identity, upvote and delete return the world as it was:
  no remote call, no change of the local feed view or of any other state, no error
  message. Delete with a missing (or empty) issue id does the same.
\<close>

theorem guards_noop:
  "(user (ui w) = None \<longrightarrow>
      handleUpvote r i w = w \<and> handleDelete r_del r_upd issueId w = w)
   \<and> (\<not> truthy_str issueId \<longrightarrow> handleDelete r_del r_upd issueId w = w)"
  by (auto simp: handleUpvote_def handleDelete_def truthy_str_def split: option.splits)

theorem guards_noop_witness:
  "user (ui signed_out) = None
   \<and> handleUpvote Resolved ''i1'' signed_out = signed_out
   \<and> handleDelete Resolved Resolved (Some ''i1'') signed_out = signed_out
   \<and> \<not> truthy_str None
   \<and> handleDelete Resolved Resolved None (signed_in (veteran 5) (veteran 5))
       = signed_in (veteran 5) (veteran 5)"
proof -
  have h: "user (ui signed_out) = None" by (simp add: example_defs)
  have t: "\<not> truthy_str None" by (simp add: truthy_str_def)
  show ?thesis
    using h t
      guards_noop [of signed_out Resolved "''i1''" Resolved Resolved "Some ''i1''"]
      guards_noop [of "signed_in (veteran 5) (veteran 5)" Resolved "''i1''" Resolved Resolved None]
    by simp
qed

subsection \<open>Submit\<close>

text \<open>
  Claim C5. When the title, the description or the location is empty after trimming,
  submit leaves the world as it was (no remote call) and sets the form's validation
  message; and a submit that issues a remote call had all three fields non-empty after
  trimming.
\<close>

theorem submit_validation:
  "(trim (title_in f) = [] \<or> trim (description_in f) = [] \<or> trim (location_in f) = []
      \<longrightarrow> handleSubmit r_add r_set now f w
            = (f\<lparr>formError := ''All fields are required.''\<rparr>, w))
   \<and> (remote_calls (trace (snd (handleSubmit r_add r_set now f w))) \<noteq> remote_calls (trace w)
      \<longrightarrow> trim (title_in f) \<noteq> [] \<and> trim (description_in f) \<noteq> []
          \<and> trim (location_in f) \<noteq> [])"
  by (auto simp: handleSubmit_def)

lemma trim_examples:
  "trim ''  '' = [] \<and> trim ''Pothole'' = ''Pothole'' \<and> trim ''Deep'' = ''Deep''
   \<and> trim ''Main St'' = ''Main St''"
  by (simp add: trim_def isWhiteSpace_def)

theorem submit_validation_witness:
  "trim (title_in (filled_form\<lparr>title_in := ''  ''\<rparr>)) = []
   \<and> handleSubmit Resolved Resolved 1000 (filled_form\<lparr>title_in := ''  ''\<rparr>)
       (signed_in zero_profile zero_profile)
     = (filled_form\<lparr>title_in := ''  '', formError := ''All fields are required.''\<rparr>,
        signed_in zero_profile zero_profile)
   \<and> remote_calls (trace (snd (handleSubmit Resolved Resolved 1000 filled_form
                                 (signed_in zero_profile zero_profile))))
     \<noteq> remote_calls (trace (signed_in zero_profile zero_profile))
   \<and> trim (title_in filled_form) \<noteq> []"
proof -
  have blank: "trim (title_in (filled_form\<lparr>title_in := ''  ''\<rparr>)) = []"
    by (simp add: trim_examples)
  have sub: "handleSubmit Resolved Resolved 1000 filled_form (signed_in zero_profile zero_profile)
      = (filled_form, addIssue Resolved Resolved 1000 (issueData filled_form)
                        (signed_in zero_profile zero_profile))"
    by (simp add: handleSubmit_def filled_form_def trim_examples)
  have "remote_calls (trace (addIssue Resolved Resolved 1000 (issueData filled_form)
                        (signed_in zero_profile zero_profile))) \<noteq> []"
    by (simp add: addIssue_def call_defs Let_def signed_in_def app_start_def alice_def
        remote_calls_append doc_examples)
  moreover have tr0: "trace (signed_in zero_profile zero_profile) = []"
    by (simp add: signed_in_def)
  ultimately have calls: "remote_calls (trace (snd (handleSubmit Resolved Resolved 1000 filled_form
                                 (signed_in zero_profile zero_profile))))
     \<noteq> remote_calls (trace (signed_in zero_profile zero_profile))"
    by (simp add: sub tr0)
  from blank
    submit_validation [of "filled_form\<lparr>title_in := ''  ''\<rparr>" Resolved Resolved 1000
        "signed_in zero_profile zero_profile"]
  have first: "handleSubmit Resolved Resolved 1000 (filled_form\<lparr>title_in := ''  ''\<rparr>)
       (signed_in zero_profile zero_profile)
     = (filled_form\<lparr>title_in := ''  '', formError := ''All fields are required.''\<rparr>,
        signed_in zero_profile zero_profile)"
    by blast
  from calls
    submit_validation [of filled_form Resolved Resolved 1000
        "signed_in zero_profile zero_profile"]
  have second: "trim (title_in filled_form) \<noteq> []"
    by blast
  from blank first calls second show ?thesis by blast
qed

text \<open>
  Claim C6. For every draft handed to \<open>addIssue\<close> by a signed-in identity, whatever
  values the draft has for these fields, exactly one record is written, and it is the
  draft with status "Acknowledged", upvotes 0, createdAt the submission time and
  reporterId the uid of the calling identity.
\<close>

theorem addIssue_forces_fields:
  assumes "user (ui w) = Some u"
  shows "\<exists>d. added_docs (trace (addIssue r_add r_set now draft w)) = added_docs (trace w) @ [d]
     \<and> d = draft\<lparr>status := Some ''Acknowledged'', upvotes := Some 0,
                   createdAt := Some now, reporterId := Some (uid u)\<rparr>
     \<and> status d = Some ''Acknowledged'' \<and> upvotes d = Some 0 \<and> createdAt d = Some now
     \<and> reporterId d = Some (uid u)"
  using assms
  by (cases r_add; cases r_set; cases "profileDocRef (uid u)")
     (simp_all add: addIssue_def addIssue_catch_def call_defs Let_def added_docs_append)

theorem addIssue_forces_fields_witness:
  "user (ui (signed_in zero_profile zero_profile)) = Some alice
   \<and> added_docs (trace (addIssue Resolved Resolved 1000
        ((issueData filled_form)\<lparr>status := Some ''Resolved'', upvotes := Some 99,
                                  createdAt := Some 1, reporterId := Some ''u2''\<rparr>)
        (signed_in zero_profile zero_profile)))
     = [(issueData filled_form)\<lparr>status := Some ''Acknowledged'', upvotes := Some 0,
                                 createdAt := Some 1000, reporterId := Some ''u1''\<rparr>]"
proof -
  have h: "user (ui (signed_in zero_profile zero_profile)) = Some alice"
    by (simp add: example_defs)
  show ?thesis
    using h addIssue_forces_fields [OF h, of Resolved Resolved 1000
        "(issueData filled_form)\<lparr>status := Some ''Resolved'', upvotes := Some 99,
                                  createdAt := Some 1, reporterId := Some ''u2''\<rparr>"]
    by (auto simp: example_defs)
qed

text \<open>
  Claim C4, where it fails. Alice holds both badges and, after deletions, has a persisted
  report count of 0; her local profile copy agrees with the persisted one. After an
  accepted report the persisted count is 1 and the persisted badges are still both
  badges, not the badges that the thresholds give for a count of 1.
\<close>

theorem accepted_report_counterexample:
  "map_option reportedIssues
     (profiles (addIssue Resolved Resolved 1000 (issueData filled_form)
                  (signed_in (veteran 0) (veteran 0))) ''u1'') = Some (Some 1)
   \<and> persisted_badges (addIssue Resolved Resolved 1000 (issueData filled_form)
                         (signed_in (veteran 0) (veteran 0))) ''u1''
     \<noteq> set (spec_threshold_badges 1)"
  by (simp add: addIssue_def call_defs example_defs Let_def newBadges_def or0_def
      increment_def persisted_badges_def badges_of_def spec_threshold_badges_def doc_examples)

text \<open>
  Claim C4, amended. On an accepted report (both writes resolve) by an identity with a
  persisted profile, the persisted points grow by 10 and reportedIssues by 1. When the
  local profile copy agrees with the persisted profile on reportedIssues and badges, the
  persisted badges become the badges held before together with the threshold badges
  ("First Report" from 1, "Neighborhood Hero" from 5) of the post-increment count: held
  badges are kept whatever the count. In particular, then, from a persisted
  reportedIssues of 0 the profile has reportedIssues 1, 10 more points and the badge
  "First Report".
\<close>

theorem accepted_report_profile:
  assumes "user (ui w) = Some u" and "profileDocRef (uid u) \<noteq> None"
    and "profiles w (uid u) = Some p"
  shows "\<exists>p'. profiles (addIssue Resolved Resolved now draft w) (uid u) = Some p'
     \<and> points p' = Some (or0 (points p) + 10)
     \<and> reportedIssues p' = Some (or0 (reportedIssues p) + 1)
     \<and> (or0 (reportedIssues (userProfile (ui w))) = or0 (reportedIssues p)
          \<and> badges_of (userProfile (ui w)) = badges_of p \<longrightarrow>
          set (badges_of p')
            = set (badges_of p) \<union> set (spec_threshold_badges (or0 (reportedIssues p) + 1))
          \<and> (or0 (reportedIssues p) = 0 \<longrightarrow>
               reportedIssues p' = Some 1 \<and> ''First Report'' \<in> set (badges_of p')))"
proof -
  let ?p' = "p\<lparr>points := increment 10 (points p),
               reportedIssues := increment 1 (reportedIssues p),
               badges := Some (newBadges (userProfile (ui w)))\<rparr>"
  have written: "profiles (addIssue Resolved Resolved now draft w) (uid u) = Some ?p'"
    using assms by (auto simp: addIssue_def call_defs Let_def)
  have b': "badges_of ?p' = newBadges (userProfile (ui w))"
    by (simp add: badges_of_def)
  have bs: "set (badges_of ?p')
              = set (badges_of p) \<union> set (spec_threshold_badges (or0 (reportedIssues p) + 1))"
    if "or0 (reportedIssues (userProfile (ui w))) = or0 (reportedIssues p)"
      and "badges_of (userProfile (ui w)) = badges_of p"
    using set_newBadges [of "userProfile (ui w)"] that unfolding b' by simp
  have first: "''First Report'' \<in> set (badges_of ?p')"
    if "or0 (reportedIssues (userProfile (ui w))) = or0 (reportedIssues p)"
      and "badges_of (userProfile (ui w)) = badges_of p" and "or0 (reportedIssues p) = 0"
    using bs [OF that(1,2)] that(3) by (simp add: spec_threshold_badges_def)
  show ?thesis
    using written bs first by (intro exI [of _ ?p']) (simp add: increment_or0)
qed

theorem accepted_report_profile_witness:
  "user (ui (signed_in zero_profile zero_profile)) = Some alice
   \<and> profileDocRef (uid alice) \<noteq> None
   \<and> profiles (signed_in zero_profile zero_profile) (uid alice) = Some zero_profile
   \<and> or0 (reportedIssues zero_profile) = 0
   \<and> (\<exists>p'. profiles (addIssue Resolved Resolved 1000 (issueData filled_form)
               (signed_in zero_profile zero_profile)) ''u1'' = Some p'
        \<and> points p' = Some 10 \<and> reportedIssues p' = Some 1
        \<and> set (badges_of p') = {''First Report''})"
proof -
  have h: "user (ui (signed_in zero_profile zero_profile)) = Some alice"
    "profileDocRef (uid alice) \<noteq> None"
    "profiles (signed_in zero_profile zero_profile) (uid alice) = Some zero_profile"
    by (simp_all add: example_defs doc_examples)
  have l: "userProfile (ui (signed_in zero_profile zero_profile)) = zero_profile"
    by (simp add: signed_in_def app_start_def)
  have z: "or0 (reportedIssues zero_profile) = 0" "or0 (points zero_profile) = 0"
    "badges_of zero_profile = []"
    by (simp_all add: zero_profile_def or0_def badges_of_def)
  have t: "set (spec_threshold_badges 1) = {''First Report''}"
    by (simp add: spec_threshold_badges_def)
  have a: "uid alice = ''u1''" by (simp add: alice_def)
  from accepted_report_profile [OF h, of 1000 "issueData filled_form"]
  show ?thesis
    using h z by (auto simp: l t a)
qed

subsection \<open>Sign-out\<close>

text \<open>
  Claim C7, evaluated where it fails. Alice is signed in and the remote sign-out is
  rejected: \<open>handleLogout\<close> awaits it with no \<open>catch\<close> or \<open>finally\<close>, unlike the login,
  sign-up and submit handlers, so it ends at the \<open>await\<close> and the identity, the feed
  view and the profile copy stay as they were.
\<close>

theorem logout_rejected_keeps_state:
  "user (ui (handleLogout Rejected (signed_in (veteran 5) (veteran 5)))) = Some alice
   \<and> issues (ui (handleLogout Rejected (signed_in (veteran 5) (veteran 5)))) \<noteq> []
   \<and> userProfile (ui (handleLogout Rejected (signed_in (veteran 5) (veteran 5)))) = veteran 5"
  by (simp add: handleLogout_def call_defs example_defs)

text \<open>When the remote sign-out resolves, the dependent local state is cleared.\<close>

lemma handleLogout_resolved:
  "ui (handleLogout Resolved w)
     = (ui w)\<lparr>user := None, issues := [], userProfile := zero_profile, authView := ''login''\<rparr>"
  by (simp add: handleLogout_def call_defs Let_def)

subsection \<open>Badges\<close>

text \<open>
  Delete leaves the badges field of every persisted profile as it was, whatever the
  results of its remote calls, and a delete whose two calls resolve takes 10 points and
  1 report off the persisted profile of the deleting identity.
\<close>

lemma handleDelete_badges:
  "map_option badges (profiles (handleDelete r_del r_upd issueId w) v)
   = map_option badges (profiles w v)"
  by (cases r_del; cases r_upd; cases "profileDocRef (uid (the (user (ui w))))")
     (auto simp: handleDelete_def handleDelete_try_def handleDelete_catch_def call_defs
        Let_def split: option.splits)

lemma handleDelete_decrements:
  assumes "user (ui w) = Some u" and "i \<noteq> []" and "issueDocRef i \<noteq> None"
    and "profileDocRef (uid u) \<noteq> None" and "profiles w (uid u) = Some p"
  shows "profiles (handleDelete Resolved Resolved (Some i) w) (uid u)
          = Some (p\<lparr>points := Some (or0 (points p) - 10),
                     reportedIssues := Some (or0 (reportedIssues p) - 1)\<rparr>)"
  using assms
  by (auto simp: handleDelete_def handleDelete_try_def call_defs Let_def increment_or0)

text \<open>
  Claim C8, evaluated where it fails. The application has just loaded and alice, whose
  persisted profile holds both badges for 5 reports, is signed in; her profile has not
  been loaded into the local copy yet, which is still the zero-state. An accepted report
  then replaces the persisted badges by those computed from the local copy: "Neighborhood
  Hero" is removed from the persisted badge set.
\<close>

theorem stale_submit_drops_badge:
  "''Neighborhood Hero''
     \<in> persisted_badges (step (AuthStateChanged (Some alice)) (boot (veteran 5))) ''u1''
   \<and> ''Neighborhood Hero''
     \<notin> persisted_badges
         (step (Submit Resolved Resolved 1000 filled_form)
            (step (AuthStateChanged (Some alice)) (boot (veteran 5)))) ''u1''"
  by (simp add: onAuthStateChanged_def handleSubmit_def trim_examples
      addIssue_def call_defs example_defs Let_def newBadges_def or0_def
      persisted_badges_def badges_of_def doc_examples)

subsection \<open>The primary media of an issue card\<close>

text \<open>
  Claim C9, evaluated where it fails. A record with both a photo and a video reference:
  the card takes the photo reference as the media to display (\<open>imageUrl\<close>, then
  \<open>photoUrl\<close>, then \<open>videoUrl\<close>), while it takes "video" as the kind of that media.
\<close>

theorem main_media_photo_under_video_type:
  "mainMediaUrl ((report ''i1'' None None)\<lparr>photoUrl := Some ''p.png'',
                                            videoUrl := Some ''v.mp4''\<rparr>)
     = Some ''p.png''
   \<and> mainMediaType ((report ''i1'' None None)\<lparr>photoUrl := Some ''p.png'',
                                             videoUrl := Some ''v.mp4''\<rparr>)
     = ''video''"
  by (simp add: mainMediaUrl_def mainMediaType_def or_str_def truthy_str_def report_def)

end
